theory Spec2Isabelle
  imports Main
begin

section \<open>Python values and exceptions\<close>

text \<open>
  The values that travel through the commands are the ones a JSON document decodes to in
  Python: \<open>None\<close>, booleans, integers, floats, strings, lists and dictionaries.
  A dictionary keeps its insertion order, so it is an association list.
  A finite float is written by its decimal expansion: \<open>PFloat m e\<close> is \<open>m * 10 ^ e\<close>.
\<close>

datatype pyval =
    PNone
  | PBool bool
  | PInt int
  | PFloat int int
  | PStr string
  | PList "pyval list"
  | PDict "(string \<times> pyval) list"

text \<open>
  Instances of Python's \<open>Exception\<close>, the class that every \<open>except Exception\<close> of the
  source catches. \<open>typer.Exit\<close> and \<open>typer.Abort\<close> are subclasses of \<open>RuntimeError\<close>;
  \<open>Upstream\<close> stands for whatever the wrapped library raises.
\<close>

datatype exn =
    AttributeError
  | TypeError
  | KeyError
  | Exit int
  | Abort
  | Upstream string

type_synonym dict = "(string \<times> pyval) list"

text \<open>\<open>d[k] = v\<close>: an existing key keeps its position, a new key goes to the end.\<close>

fun dict_set :: "dict \<Rightarrow> string \<Rightarrow> pyval \<Rightarrow> dict" where
  "dict_set [] k v = [(k, v)]"
| "dict_set ((k', v') # d) k v =
     (if k' = k then (k, v) # d else (k', v') # dict_set d k v)"

definition keys :: "dict \<Rightarrow> string list" where
  "keys d = map fst d"

text \<open>Python's truth value of an object, as \<open>if x:\<close> tests it.\<close>

fun truthy :: "pyval \<Rightarrow> bool" where
  "truthy PNone = False"
| "truthy (PBool b) = b"
| "truthy (PInt n) = (n \<noteq> 0)"
| "truthy (PFloat m e) = (m \<noteq> 0)"
| "truthy (PStr s) = (s \<noteq> [])"
| "truthy (PList xs) = (xs \<noteq> [])"
| "truthy (PDict d) = (d \<noteq> [])"

text \<open>\<open>x.get(k, default)\<close>: only a dictionary has the method.\<close>

fun py_get_default :: "pyval \<Rightarrow> string \<Rightarrow> pyval \<Rightarrow> exn + pyval" where
  "py_get_default (PDict d) k dflt =
     Inr (case map_of d k of None \<Rightarrow> dflt | Some v \<Rightarrow> v)"
| "py_get_default _ k dflt = Inl AttributeError"

definition py_get :: "pyval \<Rightarrow> string \<Rightarrow> exn + pyval" where
  "py_get x k = py_get_default x k PNone"

text \<open>\<open>x[k]\<close> with a string \<open>k\<close>.\<close>

fun py_getitem :: "pyval \<Rightarrow> string \<Rightarrow> exn + pyval" where
  "py_getitem (PDict d) k =
     (case map_of d k of None \<Rightarrow> Inl KeyError | Some v \<Rightarrow> Inr v)"
| "py_getitem _ k = Inl TypeError"

fun starts_with :: "string \<Rightarrow> string \<Rightarrow> bool" where
  "starts_with [] s = True"
| "starts_with (c # p) [] = False"
| "starts_with (c # p) (c' # s) = (c = c' \<and> starts_with p s)"

fun substring_of :: "string \<Rightarrow> string \<Rightarrow> bool" where
  "substring_of p [] = (p = [])"
| "substring_of p (c # s) = (starts_with p (c # s) \<or> substring_of p s)"

text \<open>
  \<open>k in x\<close> with a string \<open>k\<close>: a key of a dictionary, an element of a list, a
  substring of a string; the other values are not iterable.
\<close>

fun py_contains :: "string \<Rightarrow> pyval \<Rightarrow> exn + bool" where
  "py_contains k (PDict d) = Inr (k \<in> set (keys d))"
| "py_contains k (PList xs) = Inr (PStr k \<in> set xs)"
| "py_contains k (PStr s) = Inr (substring_of k s)"
| "py_contains k _ = Inl TypeError"

text \<open>\<open>for a in x\<close>: the elements of a list, the keys of a dictionary, the characters of a string.\<close>

fun py_iter :: "pyval \<Rightarrow> exn + pyval list" where
  "py_iter (PList xs) = Inr xs"
| "py_iter (PDict d) = Inr (map PStr (keys d))"
| "py_iter (PStr s) = Inr (map (\<lambda>c. PStr [c]) s)"
| "py_iter _ = Inl TypeError"

fun isinstance_dict :: "pyval \<Rightarrow> bool" where
  "isinstance_dict (PDict d) = True"
| "isinstance_dict _ = False"

text \<open>\<open>str(n)\<close> for an integer, as an f-string formats it.\<close>

definition digit_char :: "nat \<Rightarrow> char" where
  "digit_char d = ''0123456789'' ! d"

fun str_nat :: "nat \<Rightarrow> string" where
  "str_nat n = (if n < 10 then [digit_char n] else str_nat (n div 10) @ [digit_char (n mod 10)])"

declare str_nat.simps [simp del]

definition str_int :: "int \<Rightarrow> string" where
  "str_int i = (if i < 0 then CHR ''-'' # str_nat (nat (- i)) else str_nat (nat i))"

section \<open>The external client and the observable world\<close>

text \<open>
  One constructor per method of \<open>GarminClient\<close> that the commands below invoke, with its
  arguments. The client is what it answers to each call: a value, or a raised exception
  (each method first runs \<open>ensure_authenticated\<close>, which raises \<open>typer.Exit(2)\<close>).
\<close>

datatype call =
    GetUserProfile
  | GetFullName
  | GetUserSummary string
  | GetHeartRates string
  | GetSleepData string
  | GetBodyBattery string
  | GetStressData string
  | GetTrainingStatus string
  | GetTrainingReadiness string
  | GetMaxMetrics string
  | GetBodyComposition string
  | GetActivities int int
  | DeleteActivity int
  | DeleteWeighIn int
  | DeleteWeighIns string

type_synonym client = "call \<Rightarrow> exn + pyval"

datatype OutputFormat = json | jsonl | csv | tsv | human

text \<open>
  The calls into the module \<open>garmin_connect_cli.output\<close>: \<open>output(data, format, fields,
  no_header)\<close> and \<open>emit_result(data, human_msg, format, fields, no_header)\<close>.
\<close>

datatype out_call =
    Output pyval OutputFormat "string list option" bool
  | EmitResult pyval string OutputFormat "string list option" bool

text \<open>
  What a run leaves behind: the client calls in the order they were made, the warnings
  written to stderr, and the calls into the output module.
\<close>

record world =
  calls :: "call list"
  stderr :: "(string \<times> exn) list"
  emitted :: "out_call list"

definition world0 :: world where
  "world0 = \<lparr>calls = [], stderr = [], emitted = []\<rparr>"

definition invoke :: "client \<Rightarrow> call \<Rightarrow> world \<Rightarrow> (exn + pyval) \<times> world" where
  "invoke c k w = (c k, w\<lparr>calls := calls w @ [k]\<rparr>)"

section \<open>core.py\<close>

record State =
  format :: OutputFormat
  fields_opt :: "string list option"
  no_header :: bool
  verbose :: bool
  quiet :: bool
  config_path :: "string option"
  profile :: "string option"

definition emit :: "State \<Rightarrow> pyval \<Rightarrow> world \<Rightarrow> world" where
  "emit st data w =
     w\<lparr>emitted := emitted w @ [Output data (format st) (fields_opt st) (no_header st)]\<rparr>"

definition emit_result :: "State \<Rightarrow> pyval \<Rightarrow> string \<Rightarrow> world \<Rightarrow> world" where
  "emit_result st data human_msg w =
     w\<lparr>emitted := emitted w @
        [EmitResult data human_msg (format st) (fields_opt st) (no_header st)]\<rparr>"

text \<open>
  \<open>with_client\<close>: \<open>Config.load\<close> runs first and may raise (an unreadable or malformed
  file); only then is the command body entered with the client.
\<close>

definition with_client ::
  "(exn + unit) \<Rightarrow> (world \<Rightarrow> (exn + unit) \<times> world) \<Rightarrow> world \<Rightarrow> (exn + unit) \<times> world" where
  "with_client config_load func w =
     (case config_load of Inl e \<Rightarrow> (Inl e, w) | Inr _ \<Rightarrow> func w)"

section \<open>The delete commands (activities.py, weight.py)\<close>

text \<open>
  \<open>typer.confirm(prompt)\<close> answers with a boolean, or raises \<open>Abort\<close> when the input
  ends; it is the user's answer to each prompt.
\<close>

type_synonym confirm = "string \<Rightarrow> exn + bool"

definition confirm_or_abort :: "bool \<Rightarrow> confirm \<Rightarrow> string \<Rightarrow> exn + unit" where
  "confirm_or_abort force ask prompt =
     (if \<not> force then
        (case ask prompt of
           Inl e \<Rightarrow> Inl e
         | Inr confirm \<Rightarrow> if \<not> confirm then Inl Abort else Inr ())
      else Inr ())"

definition delete_activity ::
  "State \<Rightarrow> (exn + unit) \<Rightarrow> client \<Rightarrow> confirm \<Rightarrow> int \<Rightarrow> bool \<Rightarrow> world \<Rightarrow> (exn + unit) \<times> world" where
  "delete_activity st config_load c ask activity_id force =
     with_client config_load (\<lambda>w.
       case confirm_or_abort force ask (''Delete activity '' @ str_int activity_id @ ''?'') of
         Inl e \<Rightarrow> (Inl e, w)
       | Inr _ \<Rightarrow>
          (case invoke c (DeleteActivity activity_id) w of
             (Inl e, w1) \<Rightarrow> (Inl e, w1)
           | (Inr _, w1) \<Rightarrow>
               (Inr (), emit_result st (PDict [(''activity_id'', PInt activity_id)])
                          (''Activity '' @ str_int activity_id @ '' deleted'') w1)))"

definition delete_weight ::
  "State \<Rightarrow> (exn + unit) \<Rightarrow> client \<Rightarrow> confirm \<Rightarrow> int \<Rightarrow> bool \<Rightarrow> world \<Rightarrow> (exn + unit) \<times> world" where
  "delete_weight st config_load c ask pk force =
     with_client config_load (\<lambda>w.
       case confirm_or_abort force ask (''Delete weight entry '' @ str_int pk @ ''?'') of
         Inl e \<Rightarrow> (Inl e, w)
       | Inr _ \<Rightarrow>
          (case invoke c (DeleteWeighIn pk) w of
             (Inl e, w1) \<Rightarrow> (Inl e, w1)
           | (Inr _, w1) \<Rightarrow>
               (Inr (), emit_result st (PDict [(''pk'', PInt pk)])
                          (''Weight entry '' @ str_int pk @ '' deleted'') w1)))"

definition delete_weights_for_date ::
  "State \<Rightarrow> (exn + unit) \<Rightarrow> client \<Rightarrow> confirm \<Rightarrow> string \<Rightarrow> bool \<Rightarrow> world \<Rightarrow> (exn + unit) \<times> world" where
  "delete_weights_for_date st config_load c ask date_str force =
     with_client config_load (\<lambda>w.
       case confirm_or_abort force ask (''Delete all weight entries for '' @ date_str @ ''?'') of
         Inl e \<Rightarrow> (Inl e, w)
       | Inr _ \<Rightarrow>
          (case invoke c (DeleteWeighIns date_str) w of
             (Inl e, w1) \<Rightarrow> (Inl e, w1)
           | (Inr _, w1) \<Rightarrow>
               (Inr (), emit_result st (PDict [(''date'', PStr date_str)])
                          (''Weight entries for '' @ date_str @ '' deleted'') w1)))"

section \<open>context.py\<close>

definition log_error :: "State \<Rightarrow> string \<Rightarrow> exn \<Rightarrow> world \<Rightarrow> world" where
  "log_error st message e w =
     (if verbose st then w\<lparr>stderr := stderr w @ [(message, e)]\<rparr> else w)"

definition bindE :: "exn + 'a \<Rightarrow> ('a \<Rightarrow> exn + 'b) \<Rightarrow> exn + 'b" where
  "bindE m f = (case m of Inl e \<Rightarrow> Inl e | Inr v \<Rightarrow> f v)"

fun mapE :: "('a \<Rightarrow> exn + 'b) \<Rightarrow> 'a list \<Rightarrow> exn + 'b list" where
  "mapE f [] = Inr []"
| "mapE f (x # xs) = bindE (f x) (\<lambda>y. bindE (mapE f xs) (\<lambda>ys. Inr (y # ys)))"

text \<open>
  A dictionary display all of whose values are \<open>x.get(...)\<close> of one object,
  \<open>{k1: x.get(s1), k2: x.get(s2), ...}\<close>, evaluated left to right.
\<close>

fun dict_of_gets :: "pyval \<Rightarrow> (string \<times> string) list \<Rightarrow> exn + dict" where
  "dict_of_gets x [] = Inr []"
| "dict_of_gets x ((k, src) # rest) =
     bindE (py_get x src) (\<lambda>v. bindE (dict_of_gets x rest) (\<lambda>d. Inr ((k, v) # d)))"

definition record_of_gets :: "pyval \<Rightarrow> (string \<times> string) list \<Rightarrow> exn + pyval" where
  "record_of_gets x ks = bindE (dict_of_gets x ks) (\<lambda>d. Inr (PDict d))"

text \<open>\<open>s.split(sep)\<close> for a one-character separator.\<close>

fun split_on :: "char \<Rightarrow> string \<Rightarrow> string list" where
  "split_on sep [] = [[]]"
| "split_on sep (c # cs) =
     (if c = sep then [] # split_on sep cs
      else (case split_on sep cs of [] \<Rightarrow> [[c]] | p # ps \<Rightarrow> (c # p) # ps))"

text \<open>\<open>focus_areas = set(focus.split(",")) if focus else None\<close>\<close>

definition focus_areas :: "string option \<Rightarrow> string set option" where
  "focus_areas focus =
     (case focus of
        None \<Rightarrow> None
      | Some f \<Rightarrow> if f \<noteq> [] then Some (set (split_on CHR '','' f)) else None)"

text \<open>\<open>focus_areas is None or name in focus_areas\<close>\<close>

definition in_focus :: "string set option \<Rightarrow> string \<Rightarrow> bool" where
  "in_focus fa name = (case fa of None \<Rightarrow> True | Some areas \<Rightarrow> name \<in> areas)"

text \<open>
  The idiom of most sections:
  \<^verbatim>\<open>try: x = client.f(...); d[key] = normalise(x)\<close>
  \<^verbatim>\<open>except Exception as e: _log_error(message, e); d[key] = fallback\<close>
\<close>

definition try_fetch ::
  "State \<Rightarrow> client \<Rightarrow> call \<Rightarrow> (pyval \<Rightarrow> exn + pyval) \<Rightarrow> string \<Rightarrow> string \<Rightarrow> pyval
     \<Rightarrow> dict \<times> world \<Rightarrow> dict \<times> world" where
  "try_fetch st c k normalise key message fallback = (\<lambda>(d, w).
     case invoke c k w of (r, w1) \<Rightarrow>
       (case bindE r normalise of
          Inl e \<Rightarrow> (dict_set d key fallback, log_error st message e w1)
        | Inr v \<Rightarrow> (dict_set d key v, w1)))"

text \<open>The profile section makes two client calls inside one \<open>try\<close>.\<close>

definition profile_body :: "client \<Rightarrow> world \<Rightarrow> (exn + pyval) \<times> world" where
  "profile_body c w =
     (case invoke c GetUserProfile w of
        (Inl e, w1) \<Rightarrow> (Inl e, w1)
      | (Inr prof, w1) \<Rightarrow>
         (case py_get prof ''displayName'' of
            Inl e \<Rightarrow> (Inl e, w1)
          | Inr display_name \<Rightarrow>
             (case invoke c GetFullName w1 of
                (Inl e, w2) \<Rightarrow> (Inl e, w2)
              | (Inr full_name, w2) \<Rightarrow>
                 (bindE (py_get prof ''profileImageUrlLarge'') (\<lambda>image.
                    Inr (PDict [(''displayName'', display_name), (''fullName'', full_name),
                                (''profileImageUrl'', image)])), w2))))"

definition profile_section :: "State \<Rightarrow> client \<Rightarrow> dict \<times> world \<Rightarrow> dict \<times> world" where
  "profile_section st c = (\<lambda>(result, w).
     case profile_body c w of
       (Inl e, w1) \<Rightarrow> (dict_set result ''profile'' PNone,
                       log_error st ''Failed to fetch profile'' e w1)
     | (Inr v, w1) \<Rightarrow> (dict_set result ''profile'' v, w1))"

definition stats_record :: "pyval \<Rightarrow> exn + pyval" where
  "stats_record summary = record_of_gets summary
     [(''totalSteps'', ''totalSteps''), (''totalDistanceMeters'', ''totalDistanceMeters''),
      (''totalKilocalories'', ''totalKilocalories''), (''floorsClimbed'', ''floorsClimbed''),
      (''activeTimeInSeconds'', ''activeTimeInSeconds''), (''minHeartRate'', ''minHeartRate''),
      (''maxHeartRate'', ''maxHeartRate''), (''restingHeartRate'', ''restingHeartRate'')]"

definition stats_section :: "State \<Rightarrow> client \<Rightarrow> string \<Rightarrow> dict \<times> world \<Rightarrow> dict \<times> world" where
  "stats_section st c today =
     try_fetch st c (GetUserSummary today) stats_record
       ''today_stats'' ''Failed to fetch stats'' PNone"

definition heart_rate_record :: "pyval \<Rightarrow> exn + pyval" where
  "heart_rate_record hr = record_of_gets hr
     [(''resting'', ''restingHeartRate''), (''min'', ''minHeartRate''),
      (''max'', ''maxHeartRate'')]"

definition sleep_record :: "pyval \<Rightarrow> exn + pyval" where
  "sleep_record sleep =
     (if truthy sleep then
        bindE (py_contains ''dailySleepDTO'' sleep) (\<lambda>present.
          if present then
            bindE (py_getitem sleep ''dailySleepDTO'') (\<lambda>dto.
              record_of_gets dto
                [(''sleepTimeSeconds'', ''sleepTimeSeconds''),
                 (''deepSleepSeconds'', ''deepSleepSeconds''),
                 (''lightSleepSeconds'', ''lightSleepSeconds''),
                 (''remSleepSeconds'', ''remSleepSeconds''),
                 (''awakeSleepSeconds'', ''awakeSleepSeconds'')])
          else Inr PNone)
      else Inr PNone)"

text \<open>
  \<^verbatim>\<open>if bb and isinstance(bb, list) and len(bb) > 0: ... = bb[-1] if bb else None\<close>,
  \<^verbatim>\<open>else: ... = None\<close>
\<close>

definition body_battery_value :: "pyval \<Rightarrow> exn + pyval" where
  "body_battery_value bb =
     (case bb of
        PList xs \<Rightarrow>
          if truthy bb \<and> 0 < length xs then Inr (if truthy bb then last xs else PNone)
          else Inr PNone
      | _ \<Rightarrow> Inr PNone)"

definition stress_record :: "pyval \<Rightarrow> exn + pyval" where
  "stress_record stress =
     (if truthy stress then
        record_of_gets stress
          [(''overallStressLevel'', ''overallStressLevel''),
           (''restStressLevel'', ''restStressLevel''),
           (''activityStressLevel'', ''activityStressLevel'')]
      else Inr PNone)"

definition health_section :: "State \<Rightarrow> client \<Rightarrow> string \<Rightarrow> dict \<times> world \<Rightarrow> dict \<times> world" where
  "health_section st c today = (\<lambda>(result, w).
     case try_fetch st c (GetHeartRates today) heart_rate_record
            ''heart_rate'' ''Failed to fetch heart rate'' PNone ([], w) of h1 \<Rightarrow>
     case try_fetch st c (GetSleepData today) sleep_record
            ''sleep'' ''Failed to fetch sleep data'' PNone h1 of h2 \<Rightarrow>
     case try_fetch st c (GetBodyBattery today) body_battery_value
            ''body_battery'' ''Failed to fetch body battery'' PNone h2 of h3 \<Rightarrow>
     case try_fetch st c (GetStressData today) stress_record
            ''stress'' ''Failed to fetch stress data'' PNone h3 of (health, w4) \<Rightarrow>
       (dict_set result ''health'' (PDict health), w4))"

text \<open>
  The VO2max block assigns two keys one after the other; an exception between the two
  leaves the first assigned, and the handler then sets both to \<open>None\<close>.
\<close>

definition vo2max_body :: "pyval \<Rightarrow> dict \<Rightarrow> exn option \<times> dict" where
  "vo2max_body metrics training =
     (if truthy metrics then
        (case py_get_default metrics ''generic'' (PDict []) of
           Inl e \<Rightarrow> (Some e, training)
         | Inr generic \<Rightarrow>
            (case py_get_default metrics ''cycling'' (PDict []) of
               Inl e \<Rightarrow> (Some e, training)
             | Inr cycling \<Rightarrow>
                (case py_get generic ''vo2MaxValue'' of
                   Inl e \<Rightarrow> (Some e, training)
                 | Inr running \<Rightarrow>
                    (case py_get cycling ''vo2MaxValue'' of
                       Inl e \<Rightarrow> (Some e, dict_set training ''vo2max_running'' running)
                     | Inr cyc \<Rightarrow>
                        (None, dict_set (dict_set training ''vo2max_running'' running)
                                 ''vo2max_cycling'' cyc)))))
      else (None, training))"

definition vo2max_fetch :: "State \<Rightarrow> client \<Rightarrow> string \<Rightarrow> dict \<times> world \<Rightarrow> dict \<times> world" where
  "vo2max_fetch st c today = (\<lambda>(training, w).
     case invoke c (GetMaxMetrics today) w of (r, w1) \<Rightarrow>
       (case (case r of Inl e \<Rightarrow> (Some e, training)
                     | Inr metrics \<Rightarrow> vo2max_body metrics training) of
          (Some e, training1) \<Rightarrow>
            (dict_set (dict_set training1 ''vo2max_running'' PNone) ''vo2max_cycling'' PNone,
             log_error st ''Failed to fetch VO2max metrics'' e w1)
        | (None, training1) \<Rightarrow> (training1, w1)))"

definition training_section :: "State \<Rightarrow> client \<Rightarrow> string \<Rightarrow> dict \<times> world \<Rightarrow> dict \<times> world" where
  "training_section st c today = (\<lambda>(result, w).
     case try_fetch st c (GetTrainingStatus today) (\<lambda>status. py_get status ''trainingStatusPhrase'')
            ''status'' ''Failed to fetch training status'' PNone ([], w) of t1 \<Rightarrow>
     case try_fetch st c (GetTrainingReadiness today) (\<lambda>readiness. py_get readiness ''readinessScore'')
            ''readiness'' ''Failed to fetch training readiness'' PNone t1 of t2 \<Rightarrow>
     case vo2max_fetch st c today t2 of (training, w3) \<Rightarrow>
       (dict_set result ''training'' (PDict training), w3))"

text \<open>
  The weight block. \<open>x / 1000\<close> is Python's true division, whose result is a rounded
  float (or a \<open>TypeError\<close>); it is the parameter \<open>div1000\<close>.
  \<^verbatim>\<open>weight_data["current_kg"] = weight_g / 1000 if weight_g else None\<close>
\<close>

definition kg_of :: "(pyval \<Rightarrow> exn + pyval) \<Rightarrow> pyval \<Rightarrow> exn + pyval" where
  "kg_of div1000 grams = (if truthy grams then div1000 grams else Inr PNone)"

definition weight_body :: "(pyval \<Rightarrow> exn + pyval) \<Rightarrow> pyval \<Rightarrow> dict \<Rightarrow> exn option \<times> dict" where
  "weight_body div1000 body_comp weight_data =
     (if truthy body_comp then
        (case py_get body_comp ''weight'' of
           Inl e \<Rightarrow> (Some e, weight_data)
         | Inr weight_g \<Rightarrow>
            (case kg_of div1000 weight_g of
               Inl e \<Rightarrow> (Some e, weight_data)
             | Inr current_kg \<Rightarrow>
                (case dict_set weight_data ''current_kg'' current_kg of d1 \<Rightarrow>
                 case py_get body_comp ''bodyFat'' of
                   Inl e \<Rightarrow> (Some e, d1)
                 | Inr body_fat \<Rightarrow>
                    (case dict_set d1 ''body_fat_pct'' body_fat of d2 \<Rightarrow>
                     case py_get body_comp ''muscleMass'' of
                       Inl e \<Rightarrow> (Some e, d2)
                     | Inr muscle_g \<Rightarrow>
                        (case kg_of div1000 muscle_g of
                           Inl e \<Rightarrow> (Some e, d2)
                         | Inr muscle_kg \<Rightarrow>
                            (None, dict_set d2 ''muscle_mass_kg'' muscle_kg))))))
      else (None, weight_data))"

definition weight_section ::
  "State \<Rightarrow> (pyval \<Rightarrow> exn + pyval) \<Rightarrow> client \<Rightarrow> string \<Rightarrow> dict \<times> world \<Rightarrow> dict \<times> world" where
  "weight_section st div1000 c today = (\<lambda>(result, w).
     case invoke c (GetBodyComposition today) w of (r, w1) \<Rightarrow>
       (case (case r of Inl e \<Rightarrow> (Some e, [])
                     | Inr body_comp \<Rightarrow> weight_body div1000 body_comp []) of
          (Some e, d) \<Rightarrow>
            (dict_set result ''weight''
               (PDict (dict_set (dict_set (dict_set d ''current_kg'' PNone)
                                   ''body_fat_pct'' PNone) ''muscle_mass_kg'' PNone)),
             log_error st ''Failed to fetch body composition'' e w1)
        | (None, d) \<Rightarrow> (dict_set result ''weight'' (PDict d), w1)))"

definition activity_record :: "pyval \<Rightarrow> exn + pyval" where
  "activity_record a =
     bindE (dict_of_gets a [(''activityId'', ''activityId''),
                            (''activityName'', ''activityName'')]) (\<lambda>d1.
     bindE (py_get a ''activityType'') (\<lambda>t.
     bindE (if isinstance_dict t
            then bindE (py_get_default a ''activityType'' (PDict [])) (\<lambda>t'. py_get t' ''typeKey'')
            else py_get a ''activityType'') (\<lambda>activity_type.
     bindE (dict_of_gets a [(''distance'', ''distance''), (''duration'', ''duration''),
                            (''startTimeLocal'', ''startTimeLocal''),
                            (''averageHR'', ''averageHR''), (''calories'', ''calories''),
                            (''elevationGain'', ''elevationGain'')]) (\<lambda>d2.
     Inr (PDict (d1 @ [(''activityType'', activity_type)] @ d2))))))"

definition activity_records :: "pyval \<Rightarrow> exn + pyval" where
  "activity_records activities =
     bindE (py_iter activities) (\<lambda>xs. bindE (mapE activity_record xs) (\<lambda>rs. Inr (PList rs)))"

definition activities_section ::
  "State \<Rightarrow> client \<Rightarrow> int \<Rightarrow> dict \<times> world \<Rightarrow> dict \<times> world" where
  "activities_section st c activities_limit =
     try_fetch st c (GetActivities 0 activities_limit) activity_records
       ''recent_activities'' ''Failed to fetch activities'' (PList [])"

record flags =
  include_health :: bool
  include_stats :: bool
  include_training :: bool
  include_weight :: bool

text \<open>Lines 95 to 263 of the command: the sections, in the order of the source.\<close>

definition context_sections ::
  "State \<Rightarrow> (pyval \<Rightarrow> exn + pyval) \<Rightarrow> client \<Rightarrow> string \<Rightarrow> int \<Rightarrow> flags \<Rightarrow> string set option
     \<Rightarrow> world \<Rightarrow> dict \<times> world" where
  "context_sections st div1000 c today activities_limit fl fa w =
     (case profile_section st c ([], w) of r1 \<Rightarrow>
      case (if include_stats fl \<and> in_focus fa ''stats''
            then stats_section st c today r1 else r1) of r2 \<Rightarrow>
      case (if include_health fl \<and> in_focus fa ''health''
            then health_section st c today r2 else r2) of r3 \<Rightarrow>
      case (if include_training fl \<and> in_focus fa ''training''
            then training_section st c today r3 else r3) of r4 \<Rightarrow>
      case (if include_weight fl \<and> in_focus fa ''weight''
            then weight_section st div1000 c today r4 else r4) of r5 \<Rightarrow>
      (if in_focus fa ''activities''
       then activities_section st c activities_limit r5 else r5))"

text \<open>
  The command \<open>context\<close> (the name is a keyword of Isabelle, hence the suffix). \<open>invoked_subcommand\<close> is \<open>ctx.invoked_subcommand\<close>; \<open>config_load\<close> is the
  outcome of \<open>Config.load\<close>, which runs before the first section and outside every \<open>try\<close>.
\<close>

definition context_command ::
  "State \<Rightarrow> (pyval \<Rightarrow> exn + pyval) \<Rightarrow> string option \<Rightarrow> (exn + unit) \<Rightarrow> client \<Rightarrow> string
     \<Rightarrow> int \<Rightarrow> flags \<Rightarrow> string option \<Rightarrow> world \<Rightarrow> (exn + unit) \<times> world" where
  "context_command st div1000 invoked_subcommand config_load c today activities_limit fl focus w =
     (if invoked_subcommand \<noteq> None then (Inr (), w)
      else
        (case focus_areas focus of fa \<Rightarrow>
         case config_load of
           Inl e \<Rightarrow> (Inl e, w)
         | Inr _ \<Rightarrow>
            (case context_sections st div1000 c today activities_limit fl fa w of
               (result, w1) \<Rightarrow> (Inr (), emit st (PDict result) w1))))"

text \<open>The CompositeResult of a run: the value the command hands to \<open>emit\<close>.\<close>

definition composite_result ::
  "State \<Rightarrow> (pyval \<Rightarrow> exn + pyval) \<Rightarrow> client \<Rightarrow> string \<Rightarrow> int \<Rightarrow> flags \<Rightarrow> string option
     \<Rightarrow> dict" where
  "composite_result st div1000 c today activities_limit fl focus =
     fst (context_sections st div1000 c today activities_limit fl (focus_areas focus) world0)"

section \<open>What each section records\<close>

text \<open>
  The entry a section writes into the result and the client calls it makes, as functions
  of the client's answers: the vocabulary in which the theorems about the command are
  stated. The lemmas below connect them with the section functions above.
\<close>

definition fetched :: "client \<Rightarrow> call \<Rightarrow> (pyval \<Rightarrow> exn + pyval) \<Rightarrow> pyval \<Rightarrow> pyval" where
  "fetched c k normalise fallback =
     (case bindE (c k) normalise of Inl e \<Rightarrow> fallback | Inr v \<Rightarrow> v)"

definition profile_value :: "client \<Rightarrow> pyval" where
  "profile_value c = (case fst (profile_body c world0) of Inl e \<Rightarrow> PNone | Inr v \<Rightarrow> v)"

definition health_value :: "client \<Rightarrow> string \<Rightarrow> pyval" where
  "health_value c today = PDict
     [(''heart_rate'', fetched c (GetHeartRates today) heart_rate_record PNone),
      (''sleep'', fetched c (GetSleepData today) sleep_record PNone),
      (''body_battery'', fetched c (GetBodyBattery today) body_battery_value PNone),
      (''stress'', fetched c (GetStressData today) stress_record PNone)]"

definition vo2max_dict :: "client \<Rightarrow> string \<Rightarrow> dict \<Rightarrow> dict" where
  "vo2max_dict c today training =
     (case (case c (GetMaxMetrics today) of Inl e \<Rightarrow> (Some e, training)
                 | Inr metrics \<Rightarrow> vo2max_body metrics training) of
        (Some e, t1) \<Rightarrow> dict_set (dict_set t1 ''vo2max_running'' PNone) ''vo2max_cycling'' PNone
      | (None, t1) \<Rightarrow> t1)"

definition training_value :: "client \<Rightarrow> string \<Rightarrow> pyval" where
  "training_value c today = PDict (vo2max_dict c today
     [(''status'', fetched c (GetTrainingStatus today)
                     (\<lambda>status. py_get status ''trainingStatusPhrase'') PNone),
      (''readiness'', fetched c (GetTrainingReadiness today)
                     (\<lambda>readiness. py_get readiness ''readinessScore'') PNone)])"

definition weight_value :: "(pyval \<Rightarrow> exn + pyval) \<Rightarrow> client \<Rightarrow> string \<Rightarrow> pyval" where
  "weight_value div1000 c today = PDict
     (case (case c (GetBodyComposition today) of Inl e \<Rightarrow> (Some e, [])
                 | Inr body_comp \<Rightarrow> weight_body div1000 body_comp []) of
        (Some e, d) \<Rightarrow> dict_set (dict_set (dict_set d ''current_kg'' PNone)
                                  ''body_fat_pct'' PNone) ''muscle_mass_kg'' PNone
      | (None, d) \<Rightarrow> d)"

definition profile_calls :: "client \<Rightarrow> call list" where
  "profile_calls c =
     GetUserProfile # (case c GetUserProfile of Inr (PDict p) \<Rightarrow> [GetFullName] | _ \<Rightarrow> [])"

definition composite_value ::
  "(pyval \<Rightarrow> exn + pyval) \<Rightarrow> client \<Rightarrow> string \<Rightarrow> int \<Rightarrow> flags \<Rightarrow> string set option \<Rightarrow> dict" where
  "composite_value div1000 c today activities_limit fl fa =
     [(''profile'', profile_value c)]
     @ (if include_stats fl \<and> in_focus fa ''stats''
        then [(''today_stats'', fetched c (GetUserSummary today) stats_record PNone)] else [])
     @ (if include_health fl \<and> in_focus fa ''health''
        then [(''health'', health_value c today)] else [])
     @ (if include_training fl \<and> in_focus fa ''training''
        then [(''training'', training_value c today)] else [])
     @ (if include_weight fl \<and> in_focus fa ''weight''
        then [(''weight'', weight_value div1000 c today)] else [])
     @ (if in_focus fa ''activities''
        then [(''recent_activities'',
               fetched c (GetActivities 0 activities_limit) activity_records (PList []))]
        else [])"

datatype section_name = Profile | Stats | Health | Training | Weight | Activities

fun section_key :: "section_name \<Rightarrow> string" where
  "section_key Profile = ''profile''"
| "section_key Stats = ''today_stats''"
| "section_key Health = ''health''"
| "section_key Training = ''training''"
| "section_key Weight = ''weight''"
| "section_key Activities = ''recent_activities''"

fun section_calls :: "string \<Rightarrow> int \<Rightarrow> section_name \<Rightarrow> call list" where
  "section_calls today lim Profile = [GetUserProfile, GetFullName]"
| "section_calls today lim Stats = [GetUserSummary today]"
| "section_calls today lim Health =
     [GetHeartRates today, GetSleepData today, GetBodyBattery today, GetStressData today]"
| "section_calls today lim Training =
     [GetTrainingStatus today, GetTrainingReadiness today, GetMaxMetrics today]"
| "section_calls today lim Weight = [GetBodyComposition today]"
| "section_calls today lim Activities = [GetActivities 0 lim]"

definition example_state :: State where
  "example_state = \<lparr>format = json, fields_opt = None, no_header = False, verbose = True,
     quiet = False, config_path = None, profile = None\<rparr>"

definition all_sections :: flags where
  "all_sections = \<lparr>include_health = True, include_stats = True, include_training = True,
     include_weight = True\<rparr>"

definition div1000_decimal :: "pyval \<Rightarrow> exn + pyval" where
  "div1000_decimal x =
     (case x of
        PInt n \<Rightarrow> Inr (PFloat n (- 3))
      | PFloat m e \<Rightarrow> Inr (PFloat m (e - 3))
      | PBool b \<Rightarrow> Inr (PFloat (if b then 1 else 0) (- 3))
      | _ \<Rightarrow> Inl TypeError)"

definition example_client :: client where
  "example_client k =
     (case k of
        GetUserProfile \<Rightarrow> Inr (PDict [(''displayName'', PStr ''runner'')])
      | GetFullName \<Rightarrow> Inr (PStr ''Ann Runner'')
      | GetUserSummary d \<Rightarrow> Inl (Upstream ''timeout'')
      | GetHeartRates d \<Rightarrow> Inr (PDict [(''restingHeartRate'', PInt 52)])
      | GetBodyComposition d \<Rightarrow> Inr (PDict [(''weight'', PInt 70500)])
      | GetActivities s l \<Rightarrow> Inl (Upstream ''timeout'')
      | _ \<Rightarrow> Inr PNone)"


definition section_order :: "section_name list" where
  "section_order = [Profile, Stats, Health, Training, Weight, Activities]"

fun focus_name :: "section_name \<Rightarrow> string option" where
  "focus_name Profile = None"
| "focus_name Stats = Some ''stats''"
| "focus_name Health = Some ''health''"
| "focus_name Training = Some ''training''"
| "focus_name Weight = Some ''weight''"
| "focus_name Activities = Some ''activities''"

fun flag_of :: "flags \<Rightarrow> section_name \<Rightarrow> bool" where
  "flag_of fl Profile = True"
| "flag_of fl Stats = include_stats fl"
| "flag_of fl Health = include_health fl"
| "flag_of fl Training = include_training fl"
| "flag_of fl Weight = include_weight fl"
| "flag_of fl Activities = True"

definition section_enabled :: "flags \<Rightarrow> string set option \<Rightarrow> section_name \<Rightarrow> bool" where
  "section_enabled fl fa s =
     (case focus_name s of None \<Rightarrow> True | Some name \<Rightarrow> flag_of fl s \<and> in_focus fa name)"

fun made_calls :: "client \<Rightarrow> string \<Rightarrow> int \<Rightarrow> section_name \<Rightarrow> call list" where
  "made_calls c today lim Profile = profile_calls c"
| "made_calls c today lim s = section_calls today lim s"

definition context_calls ::
  "client \<Rightarrow> string \<Rightarrow> int \<Rightarrow> flags \<Rightarrow> string set option \<Rightarrow> call list" where
  "context_calls c today lim fl fa =
     concat (map (made_calls c today lim) (filter (section_enabled fl fa) section_order))"

definition failing_client :: client where
  "failing_client k = Inl (Upstream ''service unavailable'')"

definition stats_off :: flags where
  "stats_off = \<lparr>include_health = True, include_stats = False, include_training = True,
     include_weight = True\<rparr>"

section \<open>JSON text\<close>

text \<open>
  Modelled from the spec: the module \<open>garmin_connect_cli.output\<close> is not among the
  sources, so the JSON text it writes (\<open>json\<close>: pretty-printed; \<open>jsonl\<close>: one compact
  object per line) is modelled here, together with the reader that the testable properties
  call re-parsing as structured data. Numbers: an integer is written in decimal, a float
  \<open>PFloat m e\<close> in the exponent form \<open>m\<close>e\<open>e\<close>.
\<close>

definition is_digit :: "char \<Rightarrow> bool" where
  "is_digit c = (c \<in> set ''0123456789'')"

definition digit_val :: "char \<Rightarrow> nat" where
  "digit_val c = of_char c - 48"

fun nat_of_digits :: "nat \<Rightarrow> string \<Rightarrow> nat \<times> string" where
  "nat_of_digits acc [] = (acc, [])"
| "nat_of_digits acc (c # s) =
     (if is_digit c then nat_of_digits (10 * acc + digit_val c) s else (acc, c # s))"

definition parse_nat :: "string \<Rightarrow> (nat \<times> string) option" where
  "parse_nat s =
     (case s of [] \<Rightarrow> None
      | c # r \<Rightarrow> if is_digit c then Some (nat_of_digits 0 s) else None)"

definition parse_int :: "string \<Rightarrow> (int \<times> string) option" where
  "parse_int s =
     (case s of [] \<Rightarrow> None
      | c # r \<Rightarrow>
         if c = CHR ''-'' then map_option (\<lambda>(n, r'). (- int n, r')) (parse_nat r)
         else map_option (\<lambda>(n, r'). (int n, r')) (parse_nat s))"

text \<open>
  Modelled from the spec: JSON string literals. The quote, the backslash and the control
  characters (the line break among them) are escaped, so a string never breaks a line.
\<close>

definition hex_char :: "nat \<Rightarrow> char" where
  "hex_char d = ''0123456789abcdef'' ! d"

definition hex_val :: "char \<Rightarrow> nat option" where
  "hex_val c =
     (if is_digit c then Some (of_char c - 48)
      else if c \<in> set ''abcdef'' then Some (of_char c - 87)
      else None)"

definition escape_char :: "char \<Rightarrow> string" where
  "escape_char c =
     (if c = CHR 0x22 then [CHR 0x5C, CHR 0x22]
      else if c = CHR 0x5C then [CHR 0x5C, CHR 0x5C]
      else if (of_char c :: nat) < 32
        then [CHR 0x5C, CHR ''u'', CHR ''0'', CHR ''0'',
              hex_char (of_char c div 16), hex_char (of_char c mod 16)]
      else [c])"

definition quote_str :: "string \<Rightarrow> string" where
  "quote_str s = CHR 0x22 # concat (map escape_char s) @ [CHR 0x22]"

fun parse_string :: "string \<Rightarrow> (string \<times> string) option" where
  "parse_string [] = None"
| "parse_string (c # s) =
     (if c = CHR 0x22 then Some ([], s)
      else if c = CHR 0x5C then
        (case s of
           [] \<Rightarrow> None
         | e # s1 \<Rightarrow>
            if e = CHR 0x22 \<or> e = CHR 0x5C
              then map_option (\<lambda>(x, r). (e # x, r)) (parse_string s1)
            else if e = CHR ''u'' then
              (case s1 of
                 h1 # h2 # h3 # h4 # s2 \<Rightarrow>
                   (case (hex_val h1, hex_val h2, hex_val h3, hex_val h4) of
                      (Some a, Some b, Some hi, Some lo) \<Rightarrow>
                        if a = 0 \<and> b = 0
                          then map_option (\<lambda>(x, r). (char_of (16 * hi + lo) # x, r))
                                 (parse_string s2)
                        else None
                    | _ \<Rightarrow> None)
               | _ \<Rightarrow> None)
            else None)
      else map_option (\<lambda>(x, r). (c # x, r)) (parse_string s))"

text \<open>
  Modelled from the spec: the two layouts. \<open>dumps_at None\<close> is the compact form of
  \<open>jsonl\<close>, \<open>dumps_at (Some k)\<close> the pretty-printed form of \<open>json\<close> with \<open>k\<close> spaces
  per level; the second argument is the nesting depth.
\<close>

definition is_ws :: "char \<Rightarrow> bool" where
  "is_ws c = (c = CHR '' '' \<or> c = CHR 0x0A \<or> c = CHR 0x09 \<or> c = CHR 0x0D)"

definition skip_ws :: "string \<Rightarrow> string" where
  "skip_ws s = dropWhile is_ws s"

fun newline_indent :: "nat option \<Rightarrow> nat \<Rightarrow> string" where
  "newline_indent None d = []"
| "newline_indent (Some k) d = CHR 0x0A # replicate (k * d) CHR '' ''"

fun key_sep :: "nat option \<Rightarrow> string" where
  "key_sep None = '':''"
| "key_sep (Some k) = '': ''"

fun dumps_at :: "nat option \<Rightarrow> nat \<Rightarrow> pyval \<Rightarrow> string"
  and dumps_elems :: "nat option \<Rightarrow> nat \<Rightarrow> pyval list \<Rightarrow> string"
  and dumps_members :: "nat option \<Rightarrow> nat \<Rightarrow> (string \<times> pyval) list \<Rightarrow> string" where
  "dumps_at ind d PNone = ''null''"
| "dumps_at ind d (PBool b) = (if b then ''true'' else ''false'')"
| "dumps_at ind d (PInt i) = str_int i"
| "dumps_at ind d (PFloat m e) = str_int m @ ''e'' @ str_int e"
| "dumps_at ind d (PStr s) = quote_str s"
| "dumps_at ind d (PList xs) =
     (if xs = [] then ''[]''
      else ''['' @ dumps_elems ind (Suc d) xs @ newline_indent ind d @ '']'')"
| "dumps_at ind d (PDict kvs) =
     (if kvs = [] then ''{}''
      else ''{'' @ dumps_members ind (Suc d) kvs @ newline_indent ind d @ ''}'')"
| "dumps_elems ind d [] = []"
| "dumps_elems ind d (x # xs) =
     newline_indent ind d @ dumps_at ind d x
     @ (if xs = [] then [] else '','' @ dumps_elems ind d xs)"
| "dumps_members ind d [] = []"
| "dumps_members ind d ((k, v) # kvs) =
     newline_indent ind d @ quote_str k @ key_sep ind @ dumps_at ind d v
     @ (if kvs = [] then [] else '','' @ dumps_members ind d kvs)"

text \<open>
  Modelled from the spec: re-parsing as structured data. The reader skips white space
  between tokens, so it reads both layouts. Its first argument bounds the nesting it
  follows; \<open>loads\<close> supplies the length of the text, which is always enough.
\<close>

definition parse_number :: "string \<Rightarrow> (pyval \<times> string) option" where
  "parse_number s =
     (case parse_int s of
        None \<Rightarrow> None
      | Some (m, r) \<Rightarrow>
         (case r of
            [] \<Rightarrow> Some (PInt m, [])
          | c # r' \<Rightarrow>
             if c = CHR ''e''
               then map_option (\<lambda>(e, r''). (PFloat m e, r'')) (parse_int r')
             else Some (PInt m, r)))"

fun parse_value :: "nat \<Rightarrow> string \<Rightarrow> (pyval \<times> string) option"
  and parse_elems :: "nat \<Rightarrow> string \<Rightarrow> (pyval list \<times> string) option"
  and parse_members :: "nat \<Rightarrow> string \<Rightarrow> ((string \<times> pyval) list \<times> string) option" where
  "parse_value 0 s = None"
| "parse_value (Suc n) s =
     (case skip_ws s of
        [] \<Rightarrow> None
      | c # r \<Rightarrow>
         if c = CHR ''n'' then (if take 3 r = ''ull'' then Some (PNone, drop 3 r) else None)
         else if c = CHR ''t''
           then (if take 3 r = ''rue'' then Some (PBool True, drop 3 r) else None)
         else if c = CHR ''f''
           then (if take 4 r = ''alse'' then Some (PBool False, drop 4 r) else None)
         else if c = CHR 0x22 then map_option (\<lambda>(x, r'). (PStr x, r')) (parse_string r)
         else if c = CHR ''['' then
           (case skip_ws r of
              [] \<Rightarrow> None
            | c' # r' \<Rightarrow>
               if c' = CHR '']'' then Some (PList [], r')
               else map_option (\<lambda>(xs, r''). (PList xs, r'')) (parse_elems n r))
         else if c = CHR ''{'' then
           (case skip_ws r of
              [] \<Rightarrow> None
            | c' # r' \<Rightarrow>
               if c' = CHR ''}'' then Some (PDict [], r')
               else map_option (\<lambda>(kvs, r''). (PDict kvs, r'')) (parse_members n r))
         else parse_number (c # r))"
| "parse_elems 0 s = None"
| "parse_elems (Suc n) s =
     (case parse_value n s of
        None \<Rightarrow> None
      | Some (v, r) \<Rightarrow>
         (case skip_ws r of
            [] \<Rightarrow> None
          | c # r' \<Rightarrow>
             if c = CHR '',''
               then map_option (\<lambda>(vs, r''). (v # vs, r'')) (parse_elems n r')
             else if c = CHR '']'' then Some ([v], r')
             else None))"
| "parse_members 0 s = None"
| "parse_members (Suc n) s =
     (case skip_ws s of
        [] \<Rightarrow> None
      | q # r \<Rightarrow>
         if q \<noteq> CHR 0x22 then None
         else
           (case parse_string r of
              None \<Rightarrow> None
            | Some (k, r1) \<Rightarrow>
               (case skip_ws r1 of
                  [] \<Rightarrow> None
                | col # r2 \<Rightarrow>
                   if col \<noteq> CHR '':'' then None
                   else
                     (case parse_value n r2 of
                        None \<Rightarrow> None
                      | Some (v, r3) \<Rightarrow>
                         (case skip_ws r3 of
                            [] \<Rightarrow> None
                          | c # r4 \<Rightarrow>
                             if c = CHR '',''
                               then map_option (\<lambda>(kvs, r5). ((k, v) # kvs, r5))
                                      (parse_members n r4)
                             else if c = CHR ''}'' then Some ([(k, v)], r4)
                             else None)))))"

definition loads :: "string \<Rightarrow> pyval option" where
  "loads s =
     (case parse_value (length s) s of
        None \<Rightarrow> None
      | Some (v, r) \<Rightarrow> if skip_ws r = [] then Some v else None)"

text \<open>Side conditions of the lemmas about the reader.\<close>

definition all_ws :: "string \<Rightarrow> bool" where
  "all_ws ws = (\<forall>c \<in> set ws. is_ws c)"

definition value_end :: "string \<Rightarrow> bool" where
  "value_end rest = (case rest of [] \<Rightarrow> True | c # r \<Rightarrow> \<not> is_digit c \<and> c \<noteq> CHR ''e'')"

definition no_digit_ahead :: "string \<Rightarrow> bool" where
  "no_digit_ahead rest = (case rest of [] \<Rightarrow> True | c # r \<Rightarrow> \<not> is_digit c)"

section \<open>Lemmas about the sections\<close>

lemma map_of_dict_set:
  "map_of (dict_set d k v) k' = (if k' = k then Some v else map_of d k')"
  by (induction d) auto

lemma keys_dict_set:
  "keys (dict_set d k v) = (if k \<in> set (keys d) then keys d else keys d @ [k])"
  by (induction d) (force simp: keys_def)+

lemma dict_set_fresh: "k \<notin> set (keys d) \<Longrightarrow> dict_set d k v = d @ [(k, v)]"
  by (induction d) (auto simp: keys_def)

lemma calls_log_error [simp]: "calls (log_error st msg e w) = calls w"
  by (simp add: log_error_def)

lemma emitted_log_error [simp]: "emitted (log_error st msg e w) = emitted w"
  by (simp add: log_error_def)

lemma try_fetch_dict:
  "fst (try_fetch st c k n key msg fb p) = dict_set (fst p) key (fetched c k n fb)"
  by (cases p) (simp add: try_fetch_def invoke_def fetched_def split: sum.splits)

lemma try_fetch_calls:
  "calls (snd (try_fetch st c k n key msg fb p)) = calls (snd p) @ [k]"
  by (cases p) (simp add: try_fetch_def invoke_def split: sum.splits)


lemma profile_body_value: "fst (profile_body c w) = fst (profile_body c w')"
  by (simp add: profile_body_def invoke_def split: sum.splits)

lemma profile_section_dict:
  "fst (profile_section st c p) = dict_set (fst p) ''profile'' (profile_value c)"
proof (cases p)
  case (Pair d w)
  show ?thesis
    using profile_body_value [of c w world0]
    by (cases "profile_body c w")
       (auto simp add: Pair profile_section_def profile_value_def split: sum.splits)
qed

lemma profile_section_calls:
  "calls (snd (profile_section st c p)) = calls (snd p) @ profile_calls c"
  by (cases p) (auto simp add: profile_section_def profile_body_def invoke_def py_get_def
       bindE_def profile_calls_def split: prod.splits sum.splits pyval.splits)


lemma stats_section_dict:
  "fst (stats_section st c today p) =
     dict_set (fst p) ''today_stats'' (fetched c (GetUserSummary today) stats_record PNone)"
  by (simp add: stats_section_def try_fetch_dict)

lemma stats_section_calls:
  "calls (snd (stats_section st c today p)) = calls (snd p) @ [GetUserSummary today]"
  by (simp add: stats_section_def try_fetch_calls)


lemma health_section_dict:
  "fst (health_section st c today p) = dict_set (fst p) ''health'' (health_value c today)"
  by (cases p) (simp add: health_section_def health_value_def try_fetch_dict case_prod_beta)

lemma health_section_calls:
  "calls (snd (health_section st c today p)) = calls (snd p) @
     [GetHeartRates today, GetSleepData today, GetBodyBattery today, GetStressData today]"
  by (cases p) (simp add: health_section_def try_fetch_calls case_prod_beta)


lemma vo2max_fetch_dict:
  "fst (vo2max_fetch st c today p) = vo2max_dict c today (fst p)"
  by (cases p) (simp add: vo2max_fetch_def vo2max_dict_def invoke_def
       split: sum.splits prod.splits option.splits)

lemma vo2max_fetch_calls:
  "calls (snd (vo2max_fetch st c today p)) = calls (snd p) @ [GetMaxMetrics today]"
  by (cases p) (simp add: vo2max_fetch_def invoke_def split: sum.splits prod.splits option.splits)


lemma training_section_dict:
  "fst (training_section st c today p) = dict_set (fst p) ''training'' (training_value c today)"
  by (cases p) (simp add: training_section_def training_value_def try_fetch_dict
       vo2max_fetch_dict case_prod_beta)

lemma training_section_calls:
  "calls (snd (training_section st c today p)) = calls (snd p) @
     [GetTrainingStatus today, GetTrainingReadiness today, GetMaxMetrics today]"
  by (cases p) (simp add: training_section_def try_fetch_calls vo2max_fetch_calls case_prod_beta)


lemma weight_section_dict:
  "fst (weight_section st dv c today p) = dict_set (fst p) ''weight'' (weight_value dv c today)"
  by (cases p) (simp add: weight_section_def weight_value_def invoke_def
       split: sum.splits prod.splits option.splits)

lemma weight_section_calls:
  "calls (snd (weight_section st dv c today p)) = calls (snd p) @ [GetBodyComposition today]"
  by (cases p) (simp add: weight_section_def invoke_def
       split: sum.splits prod.splits option.splits)


lemma activities_section_dict:
  "fst (activities_section st c lim p) =
     dict_set (fst p) ''recent_activities''
       (fetched c (GetActivities 0 lim) activity_records (PList []))"
  by (simp add: activities_section_def try_fetch_dict)

lemma activities_section_calls:
  "calls (snd (activities_section st c lim p)) = calls (snd p) @ [GetActivities 0 lim]"
  by (simp add: activities_section_def try_fetch_calls)


lemma context_sections_dict:
  "fst (context_sections st dv c today lim fl fa w) = composite_value dv c today lim fl fa"
  by (simp add: context_sections_def composite_value_def profile_section_dict
      stats_section_dict health_section_dict training_section_dict weight_section_dict
      activities_section_dict dict_set_fresh keys_def)

lemma context_sections_calls:
  "calls (snd (context_sections st dv c today lim fl fa w)) = calls w
     @ profile_calls c
     @ (if include_stats fl \<and> in_focus fa ''stats'' then [GetUserSummary today] else [])
     @ (if include_health fl \<and> in_focus fa ''health''
        then [GetHeartRates today, GetSleepData today, GetBodyBattery today,
              GetStressData today] else [])
     @ (if include_training fl \<and> in_focus fa ''training''
        then [GetTrainingStatus today, GetTrainingReadiness today, GetMaxMetrics today]
        else [])
     @ (if include_weight fl \<and> in_focus fa ''weight'' then [GetBodyComposition today] else [])
     @ (if in_focus fa ''activities'' then [GetActivities 0 lim] else [])"
  by (simp add: context_sections_def profile_section_calls
      stats_section_calls health_section_calls training_section_calls weight_section_calls
      activities_section_calls)



section \<open>Refusing a delete\<close>

lemma confirm_or_abort_declined:
  "\<not> force \<Longrightarrow> ask prompt = Inr False \<Longrightarrow> confirm_or_abort force ask prompt = Inl Abort"
  by (simp add: confirm_or_abort_def)

text \<open>
  C10. A delete command (\<open>activities delete\<close>, \<open>weight delete\<close>, \<open>weight delete-date\<close>)
  run without \<open>--force\<close> whose confirmation prompt is answered with no aborts: it raises
  \<open>Abort\<close>, the client's delete operation is not invoked (the call trace is unchanged)
  and nothing is emitted.
\<close>

theorem delete_declined_aborts:
  assumes "\<not> force"
    and "ask (''Delete activity '' @ str_int activity_id @ ''?'') = Inr False"
    and "ask (''Delete weight entry '' @ str_int pk @ ''?'') = Inr False"
    and "ask (''Delete all weight entries for '' @ date_str @ ''?'') = Inr False"
  shows "delete_activity st (Inr ()) c ask activity_id force w = (Inl Abort, w)
       \<and> delete_weight st (Inr ()) c ask pk force w = (Inl Abort, w)
       \<and> delete_weights_for_date st (Inr ()) c ask date_str force w = (Inl Abort, w)"
  using assms
  by (simp add: delete_activity_def delete_weight_def delete_weights_for_date_def
      with_client_def confirm_or_abort_declined)

theorem delete_declined_aborts_witness:
  "delete_activity \<lparr>format = json, fields_opt = None, no_header = False, verbose = False,
       quiet = False, config_path = None, profile = None\<rparr>
     (Inr ()) (\<lambda>k. Inr PNone) (\<lambda>p. Inr False) 42 False world0 = (Inl Abort, world0)
   \<and> delete_weight \<lparr>format = json, fields_opt = None, no_header = False, verbose = False,
       quiet = False, config_path = None, profile = None\<rparr>
     (Inr ()) (\<lambda>k. Inr PNone) (\<lambda>p. Inr False) 7 False world0 = (Inl Abort, world0)
   \<and> delete_weights_for_date \<lparr>format = json, fields_opt = None, no_header = False,
       verbose = False, quiet = False, config_path = None, profile = None\<rparr>
     (Inr ()) (\<lambda>k. Inr PNone) (\<lambda>p. Inr False) ''2025-01-01'' False world0 = (Inl Abort, world0)"
  using delete_declined_aborts [of False "\<lambda>p. Inr False" 42 7 "''2025-01-01''"
      "\<lparr>format = json, fields_opt = None, no_header = False, verbose = False,
       quiet = False, config_path = None, profile = None\<rparr>" "\<lambda>k. Inr PNone" world0]
  by simp

section \<open>The result of the command\<close>

lemma context_command_outcome:
  "fst (context_command st dv None (Inr ()) c today lim fl focus w) = Inr ()"
  by (simp add: context_command_def case_prod_beta)

lemma composite_result_eq:
  "composite_result st dv c today lim fl focus =
     composite_value dv c today lim fl (focus_areas focus)"
  by (simp add: composite_result_def context_sections_dict)


lemma context_command_calls:
  "calls (snd (context_command st dv None (Inr ()) c today lim fl focus w)) =
     calls (snd (context_sections st dv c today lim fl (focus_areas focus) w))"
  by (simp add: context_command_def case_prod_beta emit_def)






lemma keys_composite_value:
  "keys (composite_value dv c today lim fl fa) =
     [''profile'']
     @ (if include_stats fl \<and> in_focus fa ''stats'' then [''today_stats''] else [])
     @ (if include_health fl \<and> in_focus fa ''health'' then [''health''] else [])
     @ (if include_training fl \<and> in_focus fa ''training'' then [''training''] else [])
     @ (if include_weight fl \<and> in_focus fa ''weight'' then [''weight''] else [])
     @ (if in_focus fa ''activities'' then [''recent_activities''] else [])"
  by (simp add: composite_value_def keys_def)


lemma map_of_composite_value:
  "map_of (composite_value dv c today lim fl fa) key =
     (if key = ''profile'' then Some (profile_value c)
      else if key = ''today_stats'' \<and> include_stats fl \<and> in_focus fa ''stats''
        then Some (fetched c (GetUserSummary today) stats_record PNone)
      else if key = ''health'' \<and> include_health fl \<and> in_focus fa ''health''
        then Some (health_value c today)
      else if key = ''training'' \<and> include_training fl \<and> in_focus fa ''training''
        then Some (training_value c today)
      else if key = ''weight'' \<and> include_weight fl \<and> in_focus fa ''weight''
        then Some (weight_value dv c today)
      else if key = ''recent_activities'' \<and> in_focus fa ''activities''
        then Some (fetched c (GetActivities 0 lim) activity_records (PList []))
      else None)"
  by (simp add: composite_value_def)

section \<open>A failing section does not affect the others\<close>





section \<open>Which sections run, and what a failure records\<close>

lemma keys_composite_enabled:
  "keys (composite_value dv c today lim fl fa) =
     map section_key (filter (section_enabled fl fa) section_order)"
  by (simp add: keys_composite_value section_order_def section_enabled_def)

lemma context_sections_calls_enabled:
  "calls (snd (context_sections st dv c today lim fl fa w)) =
     calls w @ context_calls c today lim fl fa"
  by (simp add: context_sections_calls context_calls_def section_order_def section_enabled_def)

lemma distinct_context_calls: "distinct (context_calls c today lim fl fa)"
  by (simp add: context_calls_def section_order_def section_enabled_def profile_calls_def
      split: sum.splits pyval.splits)

lemma in_focus_supplied:
  "f \<noteq> [] \<Longrightarrow> in_focus (focus_areas (Some f)) name = (name \<in> set (split_on CHR '','' f))"
  by (simp add: in_focus_def focus_areas_def)

text \<open>
  C8. The client calls of a run are the calls of the enabled sections, section after
  section in the order of the source (profile, stats, health, training, weight,
  activities), and no call occurs twice: each enabled section's fetch is made once and is
  not retried, and a disabled section contributes no call. Inside the profile section
  \<open>get_full_name\<close> follows \<open>get_user_profile\<close> when that returned a mapping; the
  section's \<open>try\<close> block ends at its first exception.
\<close>

theorem context_call_trace:
  "calls (snd (context_command st dv None (Inr ()) c today lim fl focus w)) =
     calls w @ concat (map (made_calls c today lim)
                  (filter (section_enabled fl (focus_areas focus)) section_order))
   \<and> distinct (concat (map (made_calls c today lim)
                  (filter (section_enabled fl (focus_areas focus)) section_order)))"
  using distinct_context_calls [of c today lim fl "focus_areas focus"]
  by (simp add: context_command_calls context_sections_calls_enabled context_calls_def)


text \<open>
  C3, as amended. With a non-empty focus string the keys of the CompositeResult are, in the
  order of the source: \<open>profile\<close> always, and each other section whose name is one of the
  comma-separated focus names and whose enable flag is on (the activities section has no
  flag). A focus name that matches no section selects nothing, and the command returns
  normally.
\<close>

theorem focus_and_flags_select_sections:
  assumes "f \<noteq> []"
  shows "fst (context_command st dv None (Inr ()) c today lim fl (Some f) w) = Inr ()
       \<and> keys (composite_result st dv c today lim fl (Some f)) =
           map section_key (filter (\<lambda>s. case focus_name s of
                                           None \<Rightarrow> True
                                         | Some name \<Rightarrow> flag_of fl s \<and> name \<in> set (split_on CHR '','' f))
                              section_order)"
  using assms
  by (simp add: context_command_outcome composite_result_eq keys_composite_enabled
      section_enabled_def in_focus_supplied section_order_def)

theorem focus_and_flags_select_sections_witness:
  "''stats,sleep'' \<noteq> []
   \<and> keys (composite_result example_state div1000_decimal example_client ''2025-01-01'' 5
              all_sections (Some ''stats,sleep'')) = [''profile'', ''today_stats'']"
  using focus_and_flags_select_sections [of "''stats,sleep''" example_state div1000_decimal
      example_client "''2025-01-01''" 5 all_sections world0]
  by (simp add: section_order_def all_sections_def)

text \<open>
  C3 as stated fails: with \<open>--no-stats --focus stats\<close> the named section is not
  attempted, and the profile section, which is not named, is.
\<close>

theorem focus_overrides_flags_counterexample:
  "keys (composite_result example_state div1000_decimal example_client ''2025-01-01'' 5
           stats_off (Some ''stats'')) = [''profile'']"
  by (simp add: composite_result_eq keys_composite_value stats_off_def in_focus_def
      focus_areas_def)

text \<open>
  C2, as amended. What a failing fetch leaves in the CompositeResult: \<open>null\<close> under
  \<open>profile\<close> and \<open>today_stats\<close>; the empty list under \<open>recent_activities\<close>; and for
  the sections \<open>health\<close>, \<open>training\<close> and \<open>weight\<close>, which are always recorded as a
  mapping, \<open>null\<close> under the sub-keys of the fetch that failed.
\<close>

theorem failed_fetch_recorded:
  "(c GetUserProfile = Inl e \<or> c GetFullName = Inl e \<longrightarrow>
      map_of (composite_result st dv c today lim fl focus) ''profile'' = Some PNone)
   \<and> (section_enabled fl (focus_areas focus) Stats \<and> c (GetUserSummary today) = Inl e \<longrightarrow>
      map_of (composite_result st dv c today lim fl focus) ''today_stats'' = Some PNone)
   \<and> (section_enabled fl (focus_areas focus) Activities \<and> c (GetActivities 0 lim) = Inl e \<longrightarrow>
      map_of (composite_result st dv c today lim fl focus) ''recent_activities'' = Some (PList []))
   \<and> (section_enabled fl (focus_areas focus) Health \<longrightarrow>
      (\<exists>h. map_of (composite_result st dv c today lim fl focus) ''health'' = Some (PDict h)
         \<and> keys h = [''heart_rate'', ''sleep'', ''body_battery'', ''stress'']
         \<and> (c (GetHeartRates today) = Inl e \<longrightarrow> map_of h ''heart_rate'' = Some PNone)
         \<and> (c (GetSleepData today) = Inl e \<longrightarrow> map_of h ''sleep'' = Some PNone)
         \<and> (c (GetBodyBattery today) = Inl e \<longrightarrow> map_of h ''body_battery'' = Some PNone)
         \<and> (c (GetStressData today) = Inl e \<longrightarrow> map_of h ''stress'' = Some PNone)))
   \<and> (section_enabled fl (focus_areas focus) Training \<longrightarrow>
      (\<exists>t. map_of (composite_result st dv c today lim fl focus) ''training'' = Some (PDict t)
         \<and> (c (GetTrainingStatus today) = Inl e \<longrightarrow> map_of t ''status'' = Some PNone)
         \<and> (c (GetTrainingReadiness today) = Inl e \<longrightarrow> map_of t ''readiness'' = Some PNone)
         \<and> (c (GetMaxMetrics today) = Inl e \<longrightarrow>
               map_of t ''vo2max_running'' = Some PNone
             \<and> map_of t ''vo2max_cycling'' = Some PNone)))
   \<and> (section_enabled fl (focus_areas focus) Weight \<longrightarrow>
      (\<exists>wd. map_of (composite_result st dv c today lim fl focus) ''weight'' = Some (PDict wd)
         \<and> (c (GetBodyComposition today) = Inl e \<longrightarrow>
               wd = [(''current_kg'', PNone), (''body_fat_pct'', PNone),
                     (''muscle_mass_kg'', PNone)])))"
proof -
  have prof: "c GetUserProfile = Inl e \<or> c GetFullName = Inl e \<Longrightarrow> profile_value c = PNone"
    by (auto simp add: profile_value_def profile_body_def invoke_def split: sum.splits)
  have vo2: "c (GetMaxMetrics today) = Inl e \<Longrightarrow>
      map_of (vo2max_dict c today d) ''vo2max_running'' = Some PNone
    \<and> map_of (vo2max_dict c today d) ''vo2max_cycling'' = Some PNone" for d
    by (simp add: vo2max_dict_def map_of_dict_set)
  have vo2_other: "k \<noteq> ''vo2max_running'' \<Longrightarrow> k \<noteq> ''vo2max_cycling'' \<Longrightarrow>
      map_of (vo2max_dict c today d) k = map_of d k" for d k
    by (simp add: vo2max_dict_def vo2max_body_def map_of_dict_set
        split: sum.splits prod.splits option.splits)
  show ?thesis
    using prof vo2
    by (simp add: composite_result_eq map_of_composite_value section_enabled_def
        fetched_def bindE_def health_value_def training_value_def weight_value_def keys_def
        vo2_other)
qed


theorem failed_fetch_recorded_witness:
  "failing_client GetUserProfile = Inl (Upstream ''service unavailable'')
   \<and> map_of (composite_result example_state div1000_decimal failing_client ''2025-01-01'' 5
               all_sections None) ''profile'' = Some PNone
   \<and> map_of (composite_result example_state div1000_decimal failing_client ''2025-01-01'' 5
               all_sections None) ''today_stats'' = Some PNone
   \<and> map_of (composite_result example_state div1000_decimal failing_client ''2025-01-01'' 5
               all_sections None) ''recent_activities'' = Some (PList [])
   \<and> (\<exists>wd. map_of (composite_result example_state div1000_decimal failing_client
                      ''2025-01-01'' 5 all_sections None) ''weight'' = Some (PDict wd)
          \<and> wd = [(''current_kg'', PNone), (''body_fat_pct'', PNone),
                  (''muscle_mass_kg'', PNone)])"
  using failed_fetch_recorded [of failing_client "Upstream ''service unavailable''"
      example_state div1000_decimal "''2025-01-01''" 5 all_sections None]
  by (simp add: failing_client_def section_enabled_def all_sections_def in_focus_def
      focus_areas_def)

text \<open>
  C2 as stated fails: when the activities fetch raises, \<open>recent_activities\<close> is the
  empty list, not \<open>null\<close>.
\<close>

theorem failed_fetch_null_counterexample:
  "example_client (GetActivities 0 5) = Inl (Upstream ''timeout'')
   \<and> map_of (composite_result example_state div1000_decimal example_client ''2025-01-01'' 5
               all_sections None) ''recent_activities'' = Some (PList [])
   \<and> map_of (composite_result example_state div1000_decimal example_client ''2025-01-01'' 5
               all_sections None) ''recent_activities'' \<noteq> Some PNone"
  by (simp add: composite_result_eq map_of_composite_value all_sections_def in_focus_def
      focus_areas_def fetched_def bindE_def example_client_def)

section \<open>Reading back what was written\<close>

lemma digit_cases: "d < 10 \<Longrightarrow> d \<in> {0, 1, 2, 3, 4, 5, 6, 7, 8, 9::nat}"
  by (simp only: insert_iff empty_iff) arith

lemma digit_char_props: "d < 10 \<Longrightarrow> is_digit (digit_char d) \<and> digit_val (digit_char d) = d"
  using digit_cases [of d] by (auto simp: digit_char_def is_digit_def digit_val_def)

lemma hex_cases: "d < 16 \<Longrightarrow> d \<in> {0, 1, 2, 3, 4, 5, 6, 7, 8, 9, 10, 11, 12, 13, 14, 15::nat}"
  by (simp only: insert_iff empty_iff) arith

lemma hex_val_hex_char: "d < 16 \<Longrightarrow> hex_val (hex_char d) = Some d"
  using hex_cases [of d] by (auto simp: hex_char_def hex_val_def is_digit_def)


lemma nat_of_digits_append:
  "\<forall>c \<in> set ds. is_digit c \<Longrightarrow>
     nat_of_digits acc (ds @ rest) =
       nat_of_digits (foldl (\<lambda>a c. 10 * a + digit_val c) acc ds) rest"
  by (induction ds arbitrary: acc) auto

lemma str_nat_digits: "\<forall>c \<in> set (str_nat n). is_digit c"
proof (induction n rule: str_nat.induct)
  case (1 n)
  show ?case
  proof (cases "n < 10")
    case True
    then show ?thesis by (subst str_nat.simps) (simp add: digit_char_props)
  next
    case False
    with 1 show ?thesis
      by (subst str_nat.simps) (simp add: digit_char_props)
  qed
qed

lemma str_nat_value: "foldl (\<lambda>a c. 10 * a + digit_val c) 0 (str_nat n) = n"
proof (induction n rule: str_nat.induct)
  case (1 n)
  show ?case
  proof (cases "n < 10")
    case True
    then show ?thesis by (subst str_nat.simps) (simp add: digit_char_props)
  next
    case False
    with 1 show ?thesis
      by (subst str_nat.simps) (simp add: digit_char_props)
  qed
qed

lemma str_nat_nonempty: "str_nat n \<noteq> []"
  by (subst str_nat.simps) simp

lemma nat_of_digits_stop: "no_digit_ahead rest \<Longrightarrow> nat_of_digits acc rest = (acc, rest)"
  by (cases rest) (auto simp: no_digit_ahead_def)

lemma parse_nat_str_nat:
  "no_digit_ahead rest \<Longrightarrow> parse_nat (str_nat n @ rest) = Some (n, rest)"
proof -
  assume r: "no_digit_ahead rest"
  obtain c cs where s: "str_nat n = c # cs"
    using str_nat_nonempty [of n] by (cases "str_nat n") auto
  have d: "is_digit c" using str_nat_digits [of n] s by simp
  have "nat_of_digits 0 (str_nat n @ rest) = (n, rest)"
    using nat_of_digits_append [OF str_nat_digits, of 0 n rest] r
    by (simp add: str_nat_value nat_of_digits_stop)
  with s d show ?thesis by (simp add: parse_nat_def)
qed

lemma parse_int_str_int:
  "no_digit_ahead rest \<Longrightarrow> parse_int (str_int i @ rest) = Some (i, rest)"
proof -
  assume r: "no_digit_ahead rest"
  show ?thesis
  proof (cases "i < 0")
    case True
    then show ?thesis
      using r by (simp add: parse_int_def str_int_def parse_nat_str_nat)
  next
    case False
    obtain c cs where s: "str_nat (nat i) = c # cs"
      using str_nat_nonempty [of "nat i"] by (cases "str_nat (nat i)") auto
    have d: "is_digit c" using str_nat_digits [of "nat i"] s by simp
    then have "c \<noteq> CHR ''-''" by (auto simp: is_digit_def)
    moreover have "parse_nat (c # cs @ rest) = Some (nat i, rest)"
      using parse_nat_str_nat [OF r, of "nat i"] s by simp
    ultimately show ?thesis
      using False s by (simp add: parse_int_def str_int_def)
  qed
qed

lemma parse_string_escape:
  "parse_string (concat (map escape_char s) @ CHR 0x22 # rest) = Some (s, rest)"
proof (induction s)
  case Nil
  show ?case by simp
next
  case (Cons c s)
  consider "c = CHR 0x22" | "c = CHR 0x5C"
    | "c \<noteq> CHR 0x22" "c \<noteq> CHR 0x5C" "(of_char c :: nat) < 32"
    | "c \<noteq> CHR 0x22" "c \<noteq> CHR 0x5C" "\<not> (of_char c :: nat) < 32"
    by blast
  then show ?case
  proof cases
    case 1
    with Cons show ?thesis by (simp add: escape_char_def)
  next
    case 2
    with Cons show ?thesis by (simp add: escape_char_def)
  next
    case 3
    have h: "hex_val (hex_char (of_char c div 16)) = Some (of_char c div 16)"
      "hex_val (hex_char (of_char c mod 16)) = Some (of_char c mod 16)"
      using 3 by (simp_all add: hex_val_hex_char)
    have z: "hex_val CHR ''0'' = Some 0" by (simp add: hex_val_def is_digit_def)
    have "char_of (16 * (of_char c div 16) + of_char c mod 16 :: nat) = c"
      by simp
    with 3 Cons h z show ?thesis by (simp add: escape_char_def)
  next
    case 4
    with Cons show ?thesis by (simp add: escape_char_def)
  qed
qed

lemma parse_string_quote_str:
  "parse_string (tl (quote_str s) @ rest) = Some (s, rest)"
  by (simp add: quote_str_def parse_string_escape)

lemma skip_ws_append: "all_ws ws \<Longrightarrow> skip_ws (ws @ s) = skip_ws s"
  by (simp add: skip_ws_def all_ws_def dropWhile_append2)

lemma skip_ws_Cons: "\<not> is_ws c \<Longrightarrow> skip_ws (c # s) = c # s"
  by (simp add: skip_ws_def)

lemma all_ws_newline_indent: "all_ws (newline_indent ind d)"
  by (cases ind) (auto simp: all_ws_def is_ws_def)

lemma all_ws_Nil: "all_ws []"
  by (simp add: all_ws_def)

lemma value_end_ws: "all_ws ws \<Longrightarrow> \<not> is_digit c \<Longrightarrow> c \<noteq> CHR ''e'' \<Longrightarrow> value_end (ws @ c # rest)"
  by (cases ws) (auto simp: value_end_def all_ws_def is_ws_def is_digit_def)

lemma value_end_no_digit: "value_end rest \<Longrightarrow> no_digit_ahead rest"
  by (cases rest) (auto simp: value_end_def no_digit_ahead_def)

lemma str_int_head: "\<exists>c r. str_int i = c # r \<and> (c = CHR ''-'' \<or> is_digit c)"
proof (cases "i < 0")
  case True
  then show ?thesis by (simp add: str_int_def)
next
  case False
  obtain c cs where s: "str_nat (nat i) = c # cs"
    using str_nat_nonempty [of "nat i"] by (cases "str_nat (nat i)") auto
  have "is_digit c" using str_nat_digits [of "nat i"] s by simp
  with False s show ?thesis by (simp add: str_int_def)
qed

lemma parse_number_int:
  assumes "value_end rest"
  shows "parse_number (str_int i @ rest) = Some (PInt i, rest)"
  using parse_int_str_int [OF value_end_no_digit [OF assms], of i] assms
  by (cases rest) (auto simp: parse_number_def value_end_def)

lemma parse_number_float:
  assumes "value_end rest"
  shows "parse_number (str_int m @ ''e'' @ str_int e @ rest) = Some (PFloat m e, rest)"
proof -
  have "no_digit_ahead (CHR ''e'' # str_int e @ rest)"
    by (simp add: no_digit_ahead_def is_digit_def)
  then have "parse_int (str_int m @ CHR ''e'' # str_int e @ rest)
      = Some (m, CHR ''e'' # str_int e @ rest)"
    by (rule parse_int_str_int)
  moreover have "parse_int (str_int e @ rest) = Some (e, rest)"
    using assms by (intro parse_int_str_int value_end_no_digit)
  ultimately show ?thesis by (simp add: parse_number_def)
qed

lemma num_start_not_special:
  "c = CHR ''-'' \<or> is_digit c \<Longrightarrow>
     \<not> is_ws c \<and> c \<noteq> CHR ''n'' \<and> c \<noteq> CHR ''t'' \<and> c \<noteq> CHR ''f'' \<and> c \<noteq> CHR 0x22
     \<and> c \<noteq> CHR ''['' \<and> c \<noteq> CHR ''{'' \<and> c \<noteq> CHR '']'' \<and> c \<noteq> CHR ''}''"
  by (auto simp: is_digit_def is_ws_def)

lemma parse_value_number:
  assumes "all_ws ws" "c = CHR ''-'' \<or> is_digit c"
  shows "parse_value (Suc n) (ws @ c # r) = parse_number (c # r)"
  using num_start_not_special [OF assms(2)] assms(1)
  by (simp add: skip_ws_append skip_ws_Cons)

lemma parse_value_PInt:
  assumes "all_ws ws" "value_end rest"
  shows "parse_value (Suc n) (ws @ str_int i @ rest) = Some (PInt i, rest)"
proof -
  obtain c r where s: "str_int i = c # r" "c = CHR ''-'' \<or> is_digit c"
    using str_int_head by blast
  have "parse_value (Suc n) (ws @ c # (r @ rest)) = parse_number (c # (r @ rest))"
    using assms(1) s(2) by (rule parse_value_number)
  then show ?thesis
    using parse_number_int [OF assms(2), of i] s(1) by simp
qed

lemma parse_value_PFloat:
  assumes "all_ws ws" "value_end rest"
  shows "parse_value (Suc n) (ws @ str_int m @ ''e'' @ str_int e @ rest) = Some (PFloat m e, rest)"
proof -
  obtain c r where s: "str_int m = c # r" "c = CHR ''-'' \<or> is_digit c"
    using str_int_head by blast
  have "parse_value (Suc n) (ws @ c # (r @ ''e'' @ str_int e @ rest))
      = parse_number (c # (r @ ''e'' @ str_int e @ rest))"
    using assms(1) s(2) by (rule parse_value_number)
  then show ?thesis
    using parse_number_float [OF assms(2), of m e] s(1) by simp
qed

lemma parse_value_atoms:
  assumes "all_ws ws"
  shows "parse_value (Suc n) (ws @ ''null'' @ rest) = Some (PNone, rest)"
    and "parse_value (Suc n) (ws @ ''true'' @ rest) = Some (PBool True, rest)"
    and "parse_value (Suc n) (ws @ ''false'' @ rest) = Some (PBool False, rest)"
    and "parse_value (Suc n) (ws @ quote_str s @ rest) = Some (PStr s, rest)"
    and "parse_value (Suc n) (ws @ ''[]'' @ rest) = Some (PList [], rest)"
    and "parse_value (Suc n) (ws @ ''{}'' @ rest) = Some (PDict [], rest)"
  using assms
  by (simp_all add: skip_ws_append skip_ws_Cons is_ws_def quote_str_def parse_string_escape)

lemma dumps_at_head:
  "\<exists>c r. dumps_at ind d v = c # r \<and> \<not> is_ws c \<and> c \<noteq> CHR '']'' \<and> c \<noteq> CHR ''}''"
proof (cases v)
  case (PInt i)
  obtain c r where "str_int i = c # r" "c = CHR ''-'' \<or> is_digit c"
    using str_int_head by blast
  with PInt num_start_not_special [of c] show ?thesis by simp
next
  case (PFloat m e)
  obtain c r where "str_int m = c # r" "c = CHR ''-'' \<or> is_digit c"
    using str_int_head by blast
  with PFloat num_start_not_special [of c] show ?thesis by simp
qed (simp_all add: is_ws_def quote_str_def)

lemma dumps_elems_head:
  assumes "xs \<noteq> []"
  shows "\<exists>c r. skip_ws (dumps_elems ind d xs @ tail) = c # r \<and> c \<noteq> CHR '']''"
proof -
  obtain x xs' where xs: "xs = x # xs'" using assms by (cases xs) auto
  obtain c r where h: "dumps_at ind d x = c # r" "\<not> is_ws c" "c \<noteq> CHR '']''"
    using dumps_at_head by blast
  show ?thesis
    using h by (simp add: xs skip_ws_append all_ws_newline_indent skip_ws_Cons)
qed

lemma dumps_members_head:
  assumes "kvs \<noteq> []"
  shows "\<exists>r. skip_ws (dumps_members ind d kvs @ tail) = CHR 0x22 # r"
proof -
  obtain k v kvs' where kvs: "kvs = (k, v) # kvs'" using assms by (cases kvs) auto
  show ?thesis
    by (simp add: kvs skip_ws_append all_ws_newline_indent skip_ws_Cons quote_str_def is_ws_def)
qed

lemma parse_value_list:
  assumes "all_ws ws" "skip_ws r = c' # r'" "c' \<noteq> CHR '']''"
  shows "parse_value (Suc n) (ws @ ''['' @ r) =
           map_option (\<lambda>(xs, r''). (PList xs, r'')) (parse_elems n r)"
  using assms by (simp add: skip_ws_append skip_ws_Cons is_ws_def)

lemma parse_value_dict:
  assumes "all_ws ws" "skip_ws r = c' # r'" "c' \<noteq> CHR ''}''"
  shows "parse_value (Suc n) (ws @ ''{'' @ r) =
           map_option (\<lambda>(kvs, r''). (PDict kvs, r'')) (parse_members n r)"
  using assms by (simp add: skip_ws_append skip_ws_Cons is_ws_def)

declare parse_value.simps(2) [simp del]

lemma value_end_close:
  "all_ws ws \<Longrightarrow> value_end (ws @ CHR '']'' # rest)"
  "all_ws ws \<Longrightarrow> value_end (ws @ CHR ''}'' # rest)"
  "value_end (CHR '','' # rest)"
  by (simp_all add: value_end_ws is_digit_def) (simp add: value_end_def is_digit_def)

lemma skip_ws_close:
  "all_ws ws \<Longrightarrow> skip_ws (ws @ CHR '']'' # rest) = CHR '']'' # rest"
  "all_ws ws \<Longrightarrow> skip_ws (ws @ CHR ''}'' # rest) = CHR ''}'' # rest"
  "skip_ws (CHR '','' # rest) = CHR '','' # rest"
  "skip_ws (CHR '':'' # rest) = CHR '':'' # rest"
  by (simp_all add: skip_ws_append skip_ws_Cons is_ws_def)

lemma key_sep_parse:
  "\<exists>ws. all_ws ws \<and> key_sep ind = CHR '':'' # ws"
  by (cases ind) (auto simp: all_ws_def is_ws_def)

lemma parse_dumps:
  "(\<forall>n ws rest. length (dumps_at ind d v) \<le> n \<longrightarrow> all_ws ws \<longrightarrow> value_end rest \<longrightarrow>
      parse_value n (ws @ dumps_at ind d v @ rest) = Some (v, rest))"
  "(\<forall>n ws rest. xs \<noteq> [] \<longrightarrow> length (dumps_elems ind d xs) < n \<longrightarrow> all_ws ws \<longrightarrow>
      parse_elems n (dumps_elems ind d xs @ ws @ CHR '']'' # rest) = Some (xs, rest))"
  "(\<forall>n ws rest. kvs \<noteq> [] \<longrightarrow> length (dumps_members ind d kvs) < n \<longrightarrow> all_ws ws \<longrightarrow>
      parse_members n (dumps_members ind d kvs @ ws @ CHR ''}'' # rest) = Some (kvs, rest))"
proof (induction ind d v and ind d xs and ind d kvs
    rule: dumps_at_dumps_elems_dumps_members.induct)
  case (1 ind d)
  show ?case
  proof (intro allI impI)
    fix n ws rest
    assume "length (dumps_at ind d PNone) \<le> n" "all_ws ws" "value_end rest"
    then obtain m where "n = Suc m" by (cases n) auto
    with \<open>all_ws ws\<close> show "parse_value n (ws @ dumps_at ind d PNone @ rest) = Some (PNone, rest)"
      using parse_value_atoms(1) [of ws m rest] by simp
  qed
next
  case (2 ind d b)
  show ?case
  proof (intro allI impI)
    fix n ws rest
    assume "length (dumps_at ind d (PBool b)) \<le> n" "all_ws ws" "value_end rest"
    then obtain m where "n = Suc m" by (cases n) (auto split: if_splits)
    with \<open>all_ws ws\<close>
    show "parse_value n (ws @ dumps_at ind d (PBool b) @ rest) = Some (PBool b, rest)"
      using parse_value_atoms(2) [of ws m rest] parse_value_atoms(3) [of ws m rest]
      by (cases b) simp_all
  qed
next
  case (3 ind d i)
  show ?case
  proof (intro allI impI)
    fix n ws rest
    assume "length (dumps_at ind d (PInt i)) \<le> n" "all_ws ws" "value_end rest"
    moreover have "str_int i \<noteq> []" using str_int_head [of i] by auto
    ultimately obtain m where "n = Suc m" by (cases n) auto
    with \<open>all_ws ws\<close> \<open>value_end rest\<close>
    show "parse_value n (ws @ dumps_at ind d (PInt i) @ rest) = Some (PInt i, rest)"
      by (simp add: parse_value_PInt)
  qed
next
  case (4 ind d m e)
  show ?case
  proof (intro allI impI)
    fix n ws rest
    assume "length (dumps_at ind d (PFloat m e)) \<le> n" "all_ws ws" "value_end rest"
    then obtain k where "n = Suc k" by (cases n) auto
    with \<open>all_ws ws\<close> \<open>value_end rest\<close>
    show "parse_value n (ws @ dumps_at ind d (PFloat m e) @ rest) = Some (PFloat m e, rest)"
      using parse_value_PFloat [of ws rest k m e] by simp
  qed
next
  case (5 ind d s)
  show ?case
  proof (intro allI impI)
    fix n ws rest
    assume "length (dumps_at ind d (PStr s)) \<le> n" "all_ws ws" "value_end rest"
    then obtain m where "n = Suc m" by (cases n) (auto simp: quote_str_def)
    with \<open>all_ws ws\<close>
    show "parse_value n (ws @ dumps_at ind d (PStr s) @ rest) = Some (PStr s, rest)"
      using parse_value_atoms(4) [of ws m s rest] by simp
  qed
next
  case (6 ind d xs)
  show ?case
  proof (intro allI impI)
    fix n ws rest
    assume len: "length (dumps_at ind d (PList xs)) \<le> n" and ws: "all_ws ws"
      and "value_end rest"
    then obtain m where n: "n = Suc m" by (cases n) (auto split: if_splits)
    show "parse_value n (ws @ dumps_at ind d (PList xs) @ rest) = Some (PList xs, rest)"
    proof (cases "xs = []")
      case True
      with ws n show ?thesis using parse_value_atoms(5) [of ws m rest] by simp
    next
      case False
      let ?r = "dumps_elems ind (Suc d) xs @ newline_indent ind d @ CHR '']'' # rest"
      obtain c' r' where h: "skip_ws ?r = c' # r'" "c' \<noteq> CHR '']''"
        using dumps_elems_head [OF False] by blast
      have "parse_value (Suc m) (ws @ ''['' @ ?r) =
          map_option (\<lambda>(xs, r''). (PList xs, r'')) (parse_elems m ?r)"
        using ws h by (rule parse_value_list)
      moreover have "parse_elems m ?r = Some (xs, rest)"
        using 6 False len n all_ws_newline_indent [of ind d] by simp
      ultimately show ?thesis using False n by simp
    qed
  qed
next
  case (7 ind d kvs)
  show ?case
  proof (intro allI impI)
    fix n ws rest
    assume len: "length (dumps_at ind d (PDict kvs)) \<le> n" and ws: "all_ws ws"
      and "value_end rest"
    then obtain m where n: "n = Suc m" by (cases n) (auto split: if_splits)
    show "parse_value n (ws @ dumps_at ind d (PDict kvs) @ rest) = Some (PDict kvs, rest)"
    proof (cases "kvs = []")
      case True
      with ws n show ?thesis using parse_value_atoms(6) [of ws m rest] by simp
    next
      case False
      let ?r = "dumps_members ind (Suc d) kvs @ newline_indent ind d @ CHR ''}'' # rest"
      obtain r' where h: "skip_ws ?r = CHR 0x22 # r'"
        using dumps_members_head [OF False] by blast
      have "parse_value (Suc m) (ws @ ''{'' @ ?r) =
          map_option (\<lambda>(kvs, r''). (PDict kvs, r'')) (parse_members m ?r)"
        using ws h by (rule parse_value_dict) simp
      moreover have "parse_members m ?r = Some (kvs, rest)"
        using 7 False len n all_ws_newline_indent [of ind d] by simp
      ultimately show ?thesis using False n by simp
    qed
  qed
next
  case (8 ind d)
  show ?case by simp
next
  case (9 ind d x xs)
  show ?case
  proof (intro allI impI)
    fix n ws rest
    assume len: "length (dumps_elems ind d (x # xs)) < n" and ws: "all_ws ws"
    then obtain m where n: "n = Suc m" by (cases n) auto
    let ?tail = "(if xs = [] then [] else '','' @ dumps_elems ind d xs) @ ws @ CHR '']'' # rest"
    have ve: "value_end ?tail"
      using ws by (simp add: value_end_close)
    have lx: "length (dumps_at ind d x) \<le> m" using len n by simp
    have px: "parse_value m (newline_indent ind d @ dumps_at ind d x @ ?tail) = Some (x, ?tail)"
      using 9(1) lx all_ws_newline_indent [of ind d] ve by blast
    show "parse_elems n (dumps_elems ind d (x # xs) @ ws @ CHR '']'' # rest)
        = Some (x # xs, rest)"
    proof (cases "xs = []")
      case True
      with px n ws show ?thesis by (simp add: skip_ws_close)
    next
      case False
      have "length (dumps_elems ind d xs) < m" using len n False by simp
      then have "parse_elems m (dumps_elems ind d xs @ ws @ CHR '']'' # rest) = Some (xs, rest)"
        using 9(2) False ws by blast
      with px n False show ?thesis by (simp add: skip_ws_close)
    qed
  qed
next
  case (10 ind d)
  show ?case by simp
next
  case (11 ind d k v kvs)
  show ?case
  proof (intro allI impI)
    fix n ws rest
    assume len: "length (dumps_members ind d ((k, v) # kvs)) < n" and ws: "all_ws ws"
    then obtain m where n: "n = Suc m" by (cases n) auto
    obtain sp where sp: "all_ws sp" "key_sep ind = CHR '':'' # sp"
      using key_sep_parse by blast
    let ?tail = "(if kvs = [] then [] else '','' @ dumps_members ind d kvs)
                   @ ws @ CHR ''}'' # rest"
    have ve: "value_end ?tail"
      using ws by (simp add: value_end_close)
    have lv: "length (dumps_at ind d v) \<le> m" using len n by simp
    have pv: "parse_value m (sp @ dumps_at ind d v @ ?tail) = Some (v, ?tail)"
      using 11(1) lv sp(1) ve by blast
    have start: "skip_ws (dumps_members ind d ((k, v) # kvs) @ ws @ CHR ''}'' # rest)
        = CHR 0x22 # concat (map escape_char k) @ CHR 0x22 # CHR '':'' # sp
            @ dumps_at ind d v @ ?tail"
      by (simp add: skip_ws_append all_ws_newline_indent skip_ws_Cons quote_str_def
          is_ws_def sp(2))
    show "parse_members n (dumps_members ind d ((k, v) # kvs) @ ws @ CHR ''}'' # rest)
        = Some ((k, v) # kvs, rest)"
    proof (cases "kvs = []")
      case True
      with pv n ws start show ?thesis
        by (simp add: skip_ws_close parse_string_escape del: dumps_members.simps)
    next
      case False
      have "length (dumps_members ind d kvs) < m" using len n False by simp
      then have "parse_members m (dumps_members ind d kvs @ ws @ CHR ''}'' # rest)
          = Some (kvs, rest)"
        using 11(2) False ws by blast
      with pv n False start show ?thesis
        by (simp add: skip_ws_close parse_string_escape del: dumps_members.simps)
    qed
  qed
qed

end
